theory Spec2Isabelle
  imports Main "HOL-Library.Multiset" "HOL-Library.Sublist"
begin

section \<open>Strings and regular expressions of the host language\<close>

text \<open>
  A text is a list of code units. The embedding covers texts whose code units are below
  256 (\<^typ>\<open>char\<close>); the patterns of the program only name ASCII characters, so a class
  such as \<^verbatim>\<open>[^\]|]\<close> treats every other code unit alike.

  The program uses a small fragment of the regular expressions of the language: literal
  characters, negated character classes under \<^verbatim>\<open>*\<close> and \<^verbatim>\<open>+\<close>, capture groups and an
  optional non-capturing group. \<open>rx_run\<close> is the backtracking matcher: it returns every
  way the pattern matches at the start of the input, in the order in which the
  engine tries them (greedy repetition first tries the longest run, an optional group is
  first tried present). The engine takes the first.
\<close>

datatype rx =
    Chr char                \<comment> \<open>a literal character, escaped or not\<close>
  | Lit string              \<comment> \<open>a literal text spliced into the pattern source\<close>
  | StarNot string          \<comment> \<open>\<^verbatim>\<open>[^...]*\<close>\<close>
  | PlusNot string          \<comment> \<open>\<^verbatim>\<open>[^...]+\<close>\<close>
  | Seq rx rx
  | Opt rx                  \<comment> \<open>\<^verbatim>\<open>(?:...)?\<close>\<close>
  | Grp nat rx              \<comment> \<open>capture group number n\<close>

type_synonym caps = "string option list"

primrec star_not :: "string \<Rightarrow> string \<Rightarrow> caps \<Rightarrow> (string \<times> caps) list" where
  "star_not cs [] g = [([], g)]"
| "star_not cs (x # xs) g =
     (if x \<in> set cs then [(x # xs, g)] else star_not cs xs g @ [(x # xs, g)])"

fun rx_run :: "rx \<Rightarrow> string \<times> caps \<Rightarrow> (string \<times> caps) list" where
  "rx_run (Chr c) (s, g) =
     (case s of [] \<Rightarrow> [] | x # xs \<Rightarrow> if x = c then [(xs, g)] else [])"
| "rx_run (Lit n) (s, g) =
     (if take (length n) s = n then [(drop (length n) s, g)] else [])"
| "rx_run (StarNot cs) (s, g) = star_not cs s g"
| "rx_run (PlusNot cs) (s, g) =
     (case s of [] \<Rightarrow> [] | x # xs \<Rightarrow> if x \<in> set cs then [] else star_not cs xs g)"
| "rx_run (Seq a b) sg = concat (map (rx_run b) (rx_run a sg))"
| "rx_run (Opt a) sg = rx_run a sg @ [sg]"
| "rx_run (Grp i a) (s, g) =
     map (\<lambda>(s', g'). (s', g'[i := Some (take (length s - length s') s)])) (rx_run a (s, g))"

text \<open>Sequence of several parts, as they follow each other in a pattern source.\<close>

fun seqs :: "rx list \<Rightarrow> rx" where
  "seqs [] = Lit []"
| "seqs [r] = r"
| "seqs (r # rs) = Seq r (seqs rs)"

text \<open>
  One attempt at one position: the matched text and the capture groups (slot 0 is not
  used, slot n is group n, \<open>None\<close> is \<^verbatim>\<open>undefined\<close>).
\<close>

definition rx_match :: "rx \<Rightarrow> string \<Rightarrow> (string \<times> caps) option" where
  "rx_match r s =
     (case rx_run r (s, replicate 4 None) of
        [] \<Rightarrow> None
      | (s', g) # _ \<Rightarrow> Some (take (length s - length s') s, g))"

text \<open>
  A global scan (flag \<^verbatim>\<open>g\<close>): the leftmost match from the current position, then on
  from its end. The result lists the unmatched characters (\<open>Inl\<close>) and the matches
  (\<open>Inr\<close>) in text order. After an empty match the scan moves one character on.
\<close>

function rx_scan :: "rx \<Rightarrow> string \<Rightarrow> (char + string \<times> caps) list" where
  "rx_scan r [] = (case rx_match r [] of None \<Rightarrow> [] | Some mg \<Rightarrow> [Inr mg])"
| "rx_scan r (c # cs) =
     (case rx_match r (c # cs) of
        None \<Rightarrow> Inl c # rx_scan r cs
      | Some (m, g) \<Rightarrow>
          if m = [] then Inr (m, g) # Inl c # rx_scan r cs
          else Inr (m, g) # rx_scan r (drop (length m) (c # cs)))"
  by pat_completeness auto
termination
proof (relation "measure (\<lambda>(r, s). length s)")
  fix r :: rx and c :: char and cs x2 m g
  assume "rx_match r (c # cs) = Some x2" "(m, g) = x2" "m \<noteq> []"
  then have "0 < length m" by simp
  then show "((r, drop (length m) (c # cs)), (r, c # cs)) \<in> measure (\<lambda>(r, s). length s)"
    by (cases m) auto
qed auto

text \<open>\<^verbatim>\<open>while ((match = RE.exec(line)) !== null)\<close>: all the matches of a line.\<close>

definition exec_all :: "rx \<Rightarrow> string \<Rightarrow> (string \<times> caps) list" where
  "exec_all r s = [mg. Inr mg \<leftarrow> rx_scan r s]"

text \<open>\<^verbatim>\<open>text.replace(RE, callback)\<close> with a global pattern.\<close>

definition replace_rx :: "rx \<Rightarrow> (string \<Rightarrow> caps \<Rightarrow> string) \<Rightarrow> string \<Rightarrow> string" where
  "replace_rx r f s =
     concat (map (\<lambda>t. case t of Inl c \<Rightarrow> [c] | Inr (m, g) \<Rightarrow> f m g) (rx_scan r s))"

definition grp :: "caps \<Rightarrow> nat \<Rightarrow> string option" where
  "grp g i = (if i < length g then g ! i else None)"

text \<open>A capture group that takes part in every match of its pattern.\<close>

definition grp_str :: "caps \<Rightarrow> nat \<Rightarrow> string" where
  "grp_str g i = (case grp g i of None \<Rightarrow> [] | Some t \<Rightarrow> t)"

text \<open>
  A base name is spliced into the pattern source as it is. The embedding reads it as a
  literal, which is what the engine does for a name without any of the syntax characters
  of a pattern; the theorems below that depend on it ask for \<open>regex_plain\<close>.
\<close>

definition regex_syntax_chars :: string where
  "regex_syntax_chars = CHR 0x5C # ''^$.*+?()[]{}|''"

definition regex_plain :: "string \<Rightarrow> bool" where
  "regex_plain n = list_all (\<lambda>c. c \<notin> set regex_syntax_chars) n"

section \<open>Paths\<close>

text \<open>
  \<^verbatim>\<open>path.basename(path, suffix)\<close> of the runtime, POSIX flavour, written after its loop:
  the scan runs from the last character to the first, skips trailing separators, stops
  at the separator before the last component and compares the component's end with the
  suffix on the way. \<open>-1\<close> is the "not set" value of the three indices.
\<close>

record bn_state =
  bn_start :: int
  bn_end :: int
  matchedSlash :: bool
  extIdx :: int
  firstNonSlashEnd :: int

fun bn_suffix_loop :: "string \<Rightarrow> string \<Rightarrow> nat \<Rightarrow> bn_state \<Rightarrow> bn_state" where
  "bn_suffix_loop path ext 0 st = st"
| "bn_suffix_loop path ext (Suc i) st =
     (if path ! i = CHR ''/'' then
        (if \<not> matchedSlash st then st\<lparr>bn_start := int i + 1\<rparr>
         else bn_suffix_loop path ext i st)
      else
        (let st1 = (if firstNonSlashEnd st = -1
                    then st\<lparr>matchedSlash := False, firstNonSlashEnd := int i + 1\<rparr> else st);
             st2 = (if 0 \<le> extIdx st1 then
                      (if path ! i = ext ! nat (extIdx st1) then
                         (if extIdx st1 - 1 = -1
                          then st1\<lparr>extIdx := extIdx st1 - 1, bn_end := int i\<rparr>
                          else st1\<lparr>extIdx := extIdx st1 - 1\<rparr>)
                       else st1\<lparr>extIdx := -1, bn_end := firstNonSlashEnd st1\<rparr>)
                    else st1)
         in bn_suffix_loop path ext i st2))"

fun bn_plain_loop :: "string \<Rightarrow> nat \<Rightarrow> bn_state \<Rightarrow> bn_state" where
  "bn_plain_loop path 0 st = st"
| "bn_plain_loop path (Suc i) st =
     (if path ! i = CHR ''/'' then
        (if \<not> matchedSlash st then st\<lparr>bn_start := int i + 1\<rparr>
         else bn_plain_loop path i st)
      else if bn_end st = -1
        then bn_plain_loop path i (st\<lparr>matchedSlash := False, bn_end := int i + 1\<rparr>)
        else bn_plain_loop path i st)"

definition slice :: "string \<Rightarrow> int \<Rightarrow> int \<Rightarrow> string" where
  "slice s a b = take (nat b - nat a) (drop (nat a) s)"

definition basename :: "string \<Rightarrow> string \<Rightarrow> string" where
  "basename path ext =
     (let st0 = \<lparr>bn_start = 0, bn_end = -1, matchedSlash = True,
                 extIdx = int (length ext) - 1, firstNonSlashEnd = -1\<rparr>
      in if 0 < length ext \<and> length ext \<le> length path then
           (if ext = path then []
            else
              (let st = bn_suffix_loop path ext (length path) st0;
                   e = (if bn_start st = bn_end st then firstNonSlashEnd st
                        else if bn_end st = -1 then int (length path)
                        else bn_end st)
               in slice path (bn_start st) e))
         else
           (let st = bn_plain_loop path (length path) st0
            in if bn_end st = -1 then [] else slice path (bn_start st) (bn_end st)))"

text \<open>The base name of a note: \<^verbatim>\<open>path.basename(p, '.md')\<close>.\<close>

definition basename_md :: "string \<Rightarrow> string" where
  "basename_md p = basename p ''.md''"

text \<open>\<^verbatim>\<open>s.split(sep)\<close> for a separator of one character: never empty.\<close>

fun split_on :: "char \<Rightarrow> string \<Rightarrow> string list" where
  "split_on sep [] = [[]]"
| "split_on sep (x # xs) =
     (if x = sep then [] # split_on sep xs
      else (case split_on sep xs of [] \<Rightarrow> [[x]] | l # ls \<Rightarrow> (x # l) # ls))"

text \<open>
  \<^verbatim>\<open>s.trim()\<close>: the white space and line terminators of the language that are
  below 256.
\<close>

definition js_space :: "char \<Rightarrow> bool" where
  "js_space c = (c \<in> set [CHR 0x09, CHR 0x0A, CHR 0x0B, CHR 0x0C, CHR 0x0D, CHR 0x20, CHR 0xA0])"

definition trim :: "string \<Rightarrow> string" where
  "trim s = rev (dropWhile js_space (rev (dropWhile js_space s)))"

section \<open>Link parser\<close>

record WikiLink =
  link_text :: string
  target :: string
  link_alias :: "string option"
  line :: nat
  link_context :: string
  isHeading :: bool
  heading :: "string option"

text \<open>
  \<^verbatim>\<open>WIKI_LINK_REGEX     = /\[\[([^\]|]+)(?:\|([^\]]+))?\]\]/g\<close>

  \<^verbatim>\<open>HEADING_LINK_REGEX  = /\[\[([^\]|#]+)#([^\]|]+)(?:\|([^\]]+))?\]\]/g\<close>

  \<^verbatim>\<open>EMBEDDED_LINK_REGEX = /!\[\[([^\]|]+)(?:\|([^\]]+))?\]\]/g\<close>
\<close>

definition WIKI_LINK_REGEX :: rx where
  "WIKI_LINK_REGEX = seqs [Chr CHR ''['', Chr CHR ''['', Grp 1 (PlusNot '']|''),
     Opt (Seq (Chr CHR ''|'') (Grp 2 (PlusNot '']''))), Chr CHR '']'', Chr CHR '']'']"

definition HEADING_LINK_REGEX :: rx where
  "HEADING_LINK_REGEX = seqs [Chr CHR ''['', Chr CHR ''['', Grp 1 (PlusNot '']|#''), Chr CHR ''#'',
     Grp 2 (PlusNot '']|''), Opt (Seq (Chr CHR ''|'') (Grp 3 (PlusNot '']''))),
     Chr CHR '']'', Chr CHR '']'']"

definition EMBEDDED_LINK_REGEX :: rx where
  "EMBEDDED_LINK_REGEX = seqs [Chr CHR ''!'', Chr CHR ''['', Chr CHR ''['', Grp 1 (PlusNot '']|''),
     Opt (Seq (Chr CHR ''|'') (Grp 2 (PlusNot '']''))), Chr CHR '']'', Chr CHR '']'']"

definition heading_link :: "string \<Rightarrow> nat \<Rightarrow> string \<times> caps \<Rightarrow> WikiLink" where
  "heading_link ln index mg =
     \<lparr>link_text = fst mg, target = grp_str (snd mg) 1, link_alias = grp (snd mg) 3, line = index + 1,
      link_context = trim ln, isHeading = True, heading = grp (snd mg) 2\<rparr>"

definition plain_link :: "string \<Rightarrow> nat \<Rightarrow> string \<times> caps \<Rightarrow> WikiLink" where
  "plain_link ln index mg =
     \<lparr>link_text = fst mg, target = grp_str (snd mg) 1, link_alias = grp (snd mg) 2, line = index + 1,
      link_context = trim ln, isHeading = False, heading = None\<rparr>"

text \<open>
  The second loop of a line: a match is pushed unless a link collected so far (on this
  line or an earlier one) has the same raw text.
\<close>

fun push_plain :: "string \<Rightarrow> nat \<Rightarrow> WikiLink list \<Rightarrow> (string \<times> caps) list \<Rightarrow> WikiLink list" where
  "push_plain ln index links [] = links"
| "push_plain ln index links (mg # rest) =
     (if \<not> list_ex (\<lambda>l. link_text l = fst mg) links
      then push_plain ln index (links @ [plain_link ln index mg]) rest
      else push_plain ln index links rest)"

definition scan_line :: "WikiLink list \<Rightarrow> string \<times> nat \<Rightarrow> WikiLink list" where
  "scan_line links li =
     (let ln = fst li; index = snd li;
          links1 = links @ map (heading_link ln index) (exec_all HEADING_LINK_REGEX ln);
          links2 = push_plain ln index links1 (exec_all WIKI_LINK_REGEX ln)
      in links2 @ map (plain_link ln index) (exec_all EMBEDDED_LINK_REGEX ln))"

definition findWikiLinks :: "string \<Rightarrow> WikiLink list" where
  "findWikiLinks content =
     (let lines = split_on CHR 0x0A content
      in foldl scan_line [] (zip lines [0 ..< length lines]))"

section \<open>Link rewriter\<close>

text \<open>The three patterns of a deletion, built from the old base name.\<close>

definition del_heading_rx :: "string \<Rightarrow> rx" where
  "del_heading_rx n = seqs [Chr CHR ''['', Chr CHR ''['', Lit n, Chr CHR ''#'', StarNot '']'',
     Chr CHR '']'', Chr CHR '']'']"

definition del_plain_rx :: "string \<Rightarrow> rx" where
  "del_plain_rx n = seqs [Chr CHR ''['', Chr CHR ''['', Lit n,
     Opt (Seq (Chr CHR ''|'') (StarNot '']'')), Chr CHR '']'', Chr CHR '']'']"

definition del_embed_rx :: "string \<Rightarrow> rx" where
  "del_embed_rx n = seqs [Chr CHR ''!'', Chr CHR ''['', Chr CHR ''['', Lit n,
     Opt (Seq (Chr CHR ''|'') (StarNot '']'')), Chr CHR '']'', Chr CHR '']'']"

text \<open>The three patterns of a move, shared by the two branches.\<close>

definition mv_heading_rx :: "string \<Rightarrow> rx" where
  "mv_heading_rx n = seqs [Chr CHR ''['', Chr CHR ''['', Lit n,
     Grp 1 (Seq (Chr CHR ''#'') (PlusNot '']|'')),
     Opt (Seq (Chr CHR ''|'') (Grp 2 (PlusNot '']''))), Chr CHR '']'', Chr CHR '']'']"

definition mv_plain_rx :: "string \<Rightarrow> rx" where
  "mv_plain_rx n = seqs [Chr CHR ''['', Chr CHR ''['', Lit n,
     Opt (Seq (Chr CHR ''|'') (Grp 1 (PlusNot '']''))), Chr CHR '']'', Chr CHR '']'']"

definition mv_embed_rx :: "string \<Rightarrow> rx" where
  "mv_embed_rx n = seqs [Chr CHR ''!'', Chr CHR ''['', Chr CHR ''['', Lit n,
     Opt (Seq (Chr CHR ''|'') (Grp 1 (PlusNot '']''))), Chr CHR '']'', Chr CHR '']'']"

definition strike :: "string \<Rightarrow> caps \<Rightarrow> string" where
  "strike m g = ''~~'' @ m @ ''~~''"

text \<open>\<^verbatim>\<open>alias ? `|${alias}` : ''\<close>: an empty text is falsy like \<^verbatim>\<open>undefined\<close>.\<close>

definition alias_part :: "string option \<Rightarrow> string" where
  "alias_part a = (case a of None \<Rightarrow> [] | Some x \<Rightarrow> if x = [] then [] else ''|'' @ x)"

definition to_heading :: "string \<Rightarrow> string \<Rightarrow> caps \<Rightarrow> string" where
  "to_heading name m g = ''[['' @ name @ grp_str g 1 @ alias_part (grp g 2) @ '']]''"

definition to_plain :: "string \<Rightarrow> string \<Rightarrow> caps \<Rightarrow> string" where
  "to_plain name m g = ''[['' @ name @ alias_part (grp g 1) @ '']]''"

definition to_embed :: "string \<Rightarrow> string \<Rightarrow> caps \<Rightarrow> string" where
  "to_embed name m g = ''![['' @ name @ alias_part (grp g 1) @ '']]''"

text \<open>
  \<open>updateWikiLinks content oldPath newPath destVaultName moveToOtherVault\<close>.
  \<open>newPath = None\<close> is \<^verbatim>\<open>null\<close>; an empty new path is falsy too. A vault name is
  \<^verbatim>\<open>undefined\<close> (\<open>None\<close>) or a text, truthy when it is not empty.
\<close>

definition truthy :: "string option \<Rightarrow> bool" where
  "truthy x = (case x of None \<Rightarrow> False | Some s \<Rightarrow> s \<noteq> [])"

definition str_of :: "string option \<Rightarrow> string" where
  "str_of x = (case x of None \<Rightarrow> [] | Some s \<Rightarrow> s)"

definition updateWikiLinks ::
  "string \<Rightarrow> string \<Rightarrow> string option \<Rightarrow> string option \<Rightarrow> bool \<Rightarrow> string" where
  "updateWikiLinks content oldPath newPath destVaultName moveToOtherVault =
     (let baseOldName = basename_md oldPath in
      if \<not> truthy newPath then
        replace_rx (del_embed_rx baseOldName) strike
          (replace_rx (del_plain_rx baseOldName) strike
            (replace_rx (del_heading_rx baseOldName) strike content))
      else
        (let baseNewName = basename_md (str_of newPath) in
         if moveToOtherVault \<and> truthy destVaultName then
           (let vaultPrefix = str_of destVaultName @ ''/'' in
            replace_rx (mv_embed_rx baseOldName) (to_embed (vaultPrefix @ baseOldName))
              (replace_rx (mv_plain_rx baseOldName) (to_plain (vaultPrefix @ baseOldName))
                (replace_rx (mv_heading_rx baseOldName) (to_heading (vaultPrefix @ baseOldName))
                  content)))
         else
           replace_rx (mv_embed_rx baseOldName) (to_embed baseNewName)
             (replace_rx (mv_plain_rx baseOldName) (to_plain baseNewName)
               (replace_rx (mv_heading_rx baseOldName) (to_heading baseNewName) content))))"

section \<open>Errors, collaborators and the state of the world\<close>

datatype error_code = InternalError | InvalidRequest | OtherCode

text \<open>
  What can be thrown: an error of the protocol (\<open>McpError\<close>) or anything else, of which
  only the message is kept.
\<close>

datatype exn = McpError error_code string | JsError string

text \<open>
  The \<^verbatim>\<open>catch\<close> at the end of every exported function: a protocol error is thrown
  again as it is, anything else becomes an internal error that carries the message.
\<close>

definition rethrow :: "string \<Rightarrow> exn \<Rightarrow> exn" where
  "rethrow what e =
     (case e of McpError c m \<Rightarrow> McpError c m | JsError m \<Rightarrow> McpError InternalError (what @ m))"

datatype jsval = Undefined | Null | Str string

definition js_truthy :: "jsval \<Rightarrow> bool" where
  "js_truthy v = (case v of Str s \<Rightarrow> s \<noteq> [] | _ \<Rightarrow> False)"

record Backlink =
  sourceFile :: string
  links :: "WikiLink list"

text \<open>
  The link map is an object with text keys; the association list keeps the keys in the
  order of their creation.
\<close>

type_synonym WikiLinkMap = "(string \<times> Backlink list) list"

text \<open>
  The collaborators that are not part of the rewritten core are parameters:
  the path validation and the enumeration of the documents (modules of this repository
  that the core imports), \<^verbatim>\<open>path.join\<close> and \<^verbatim>\<open>path.relative\<close> of the runtime, and
  the clock, of which \<open>date_now env n\<close> is the n-th reading.
\<close>

record env =
  validateVaultPath :: "string \<Rightarrow> string \<Rightarrow> exn option"
  getAllMarkdownFiles :: "string \<Rightarrow> exn + string list"
  path_join :: "string \<Rightarrow> string \<Rightarrow> string"
  path_relative :: "string \<Rightarrow> string \<Rightarrow> string"
  date_now :: "nat \<Rightarrow> int"

text \<open>
  The world: the regular files with their contents, the paths on which reading or writing
  fails, the other paths that exist, the two module variables of the cache, and the
  number of clock readings so far. \<open>write_log\<close> records every write that succeeded, oldest
  first.
\<close>

record world =
  files :: "string \<rightharpoonup> string"
  read_fails :: "string \<Rightarrow> bool"
  write_fails :: "string \<Rightarrow> bool"
  other_paths :: "string \<Rightarrow> bool"
  write_log :: "(string \<times> string) list"
  cachedLinkMap :: "WikiLinkMap option"
  lastUpdateTime :: int
  ticks :: nat

definition CACHE_TTL :: int where
  "CACHE_TTL = 5 * 60 * 1000"

definition readFile :: "world \<Rightarrow> string \<Rightarrow> exn + string" where
  "readFile w p =
     (case files w p of
        None \<Rightarrow> Inl (JsError ''ENOENT'')
      | Some c \<Rightarrow> if read_fails w p then Inl (JsError ''EACCES'') else Inr c)"

definition writeFile :: "world \<Rightarrow> string \<Rightarrow> string \<Rightarrow> exn + world" where
  "writeFile w p c =
     (if write_fails w p then Inl (JsError ''EACCES'')
      else Inr (w\<lparr>files := (files w)(p \<mapsto> c), write_log := write_log w @ [(p, c)]\<rparr>))"

definition access :: "world \<Rightarrow> string \<Rightarrow> bool" where
  "access w p = (case files w p of Some c \<Rightarrow> True | None \<Rightarrow> other_paths w p)"

section \<open>Link index\<close>

text \<open>
  A key that the empty object inherits is truthy before it was ever set, and what is found
  there has no \<^verbatim>\<open>find\<close> and no \<^verbatim>\<open>reduce\<close>: using it throws.
\<close>

definition object_prototype_keys :: "string list" where
  "object_prototype_keys =
     [''constructor'', ''__defineGetter__'', ''__defineSetter__'', ''hasOwnProperty'',
      ''__lookupGetter__'', ''__lookupSetter__'', ''isPrototypeOf'', ''propertyIsEnumerable'',
      ''toString'', ''valueOf'', ''__proto__'', ''toLocaleString'']"

fun find_backlink :: "string \<Rightarrow> Backlink list \<Rightarrow> nat option" where
  "find_backlink file [] = None"
| "find_backlink file (bl # bls) =
     (if sourceFile bl = file then Some 0 else map_option Suc (find_backlink file bls))"

fun set_key :: "string \<Rightarrow> Backlink list \<Rightarrow> WikiLinkMap \<Rightarrow> WikiLinkMap" where
  "set_key k v [] = [(k, v)]"
| "set_key k v (p # ps) = (if fst p = k then (k, v) # ps else p # set_key k v ps)"

text \<open>The body of \<^verbatim>\<open>links.forEach\<close> in \<open>createWikiLinkMap\<close> for a key of its own.\<close>

definition add_link :: "env \<Rightarrow> string \<Rightarrow> string \<Rightarrow> WikiLinkMap \<Rightarrow> WikiLink \<Rightarrow> WikiLinkMap" where
  "add_link e vaultPath file linkMap link =
     (let targetName = basename_md (target link);
          bls = (case map_of linkMap targetName of None \<Rightarrow> [] | Some b \<Rightarrow> b)
      in case find_backlink file bls of
           None \<Rightarrow>
             set_key targetName
               (bls @ [\<lparr>sourceFile = path_relative e vaultPath file, links = [link]\<rparr>]) linkMap
         | Some i \<Rightarrow>
             set_key targetName (bls[i := (bls ! i)\<lparr>links := links (bls ! i) @ [link]\<rparr>]) linkMap)"

text \<open>
  The links of one document, in order. A target named like an inherited key throws; the
  \<^verbatim>\<open>catch\<close> around the document keeps what was added before.
\<close>

fun add_links :: "env \<Rightarrow> string \<Rightarrow> string \<Rightarrow> WikiLinkMap \<Rightarrow> WikiLink list \<Rightarrow> WikiLinkMap" where
  "add_links e vaultPath file linkMap [] = linkMap"
| "add_links e vaultPath file linkMap (link # rest) =
     (if basename_md (target link) \<in> set object_prototype_keys then linkMap
      else add_links e vaultPath file (add_link e vaultPath file linkMap link) rest)"

definition index_file :: "env \<Rightarrow> string \<Rightarrow> world \<Rightarrow> WikiLinkMap \<Rightarrow> string \<Rightarrow> WikiLinkMap" where
  "index_file e vaultPath w linkMap file =
     (case readFile w file of
        Inl err \<Rightarrow> linkMap
      | Inr content \<Rightarrow> add_links e vaultPath file linkMap (findWikiLinks content))"

definition createWikiLinkMap :: "env \<Rightarrow> string \<Rightarrow> world \<Rightarrow> exn + WikiLinkMap" where
  "createWikiLinkMap e vaultPath w =
     (case getAllMarkdownFiles e vaultPath of
        Inl err \<Rightarrow> Inl (rethrow ''Failed to create wikilink map: '' err)
      | Inr fs \<Rightarrow> Inr (foldl (index_file e vaultPath w) [] fs))"

text \<open>
  A function that changes the world returns the new world also when it throws: what was
  written before the failure stays written.
\<close>

definition getOrUpdateLinkMap ::
  "env \<Rightarrow> string \<Rightarrow> bool \<Rightarrow> world \<Rightarrow> (exn + WikiLinkMap) \<times> world" where
  "getOrUpdateLinkMap e vaultPath forceUpdate w =
     (let now = date_now e (ticks w);
          w1 = w\<lparr>ticks := ticks w + 1\<rparr>;
          rebuild = (case createWikiLinkMap e vaultPath w1 of
                       Inl err \<Rightarrow> (Inl err, w1)
                     | Inr m \<Rightarrow> (Inr m, w1\<lparr>cachedLinkMap := Some m, lastUpdateTime := now\<rparr>))
      in case cachedLinkMap w1 of
           None \<Rightarrow> rebuild
         | Some m \<Rightarrow>
             if forceUpdate \<or> now - lastUpdateTime w1 > CACHE_TTL then rebuild
             else (Inr m, w1))"

section \<open>Vault link coordinator\<close>

record LinkUpdateOptions =
  filePath :: string
  oldPath :: string
  newPath :: "string option"
  isMovedToOtherVault :: bool
  isMovedFromOtherVault :: bool
  sourceVaultName :: "string option"
  destVaultName :: "string option"

definition moved_from_note :: "string \<Rightarrow> string" where
  "moved_from_note name = [CHR 0x0A, CHR 0x0A] @ ''> [!info] Note: Moved from '' @ name"

text \<open>The text that \<open>updateLinksInFile\<close> computes from the text it has read.\<close>

definition final_content :: "LinkUpdateOptions \<Rightarrow> string \<Rightarrow> string" where
  "final_content opts content =
     (let updatedContent = updateWikiLinks content (oldPath opts) (newPath opts)
                             (destVaultName opts) (isMovedToOtherVault opts)
      in if isMovedFromOtherVault opts \<and> truthy (sourceVaultName opts) \<and> truthy (newPath opts)
         then updatedContent @ moved_from_note (str_of (sourceVaultName opts))
         else updatedContent)"

definition updateLinksInFile :: "LinkUpdateOptions \<Rightarrow> world \<Rightarrow> (exn + bool) \<times> world" where
  "updateLinksInFile opts w =
     (case readFile w (filePath opts) of
        Inl err \<Rightarrow> (Inl (rethrow ''Failed to update links in file: '' err), w)
      | Inr content \<Rightarrow>
          (let finalContent = final_content opts content
           in if content \<noteq> finalContent then
                (case writeFile w (filePath opts) finalContent of
                   Inl err \<Rightarrow> (Inl (rethrow ''Failed to update links in file: '' err), w)
                 | Inr w' \<Rightarrow> (Inr True, w'))
              else (Inr False, w)))"

text \<open>\<^verbatim>\<open>v || ""\<close> and \<^verbatim>\<open>v || null\<close>.\<close>

definition or_empty :: "jsval \<Rightarrow> string" where
  "or_empty v = (case v of Str s \<Rightarrow> s | _ \<Rightarrow> [])"

definition or_null :: "jsval \<Rightarrow> string option" where
  "or_null v = (case v of Str s \<Rightarrow> if s = [] then None else Some s | _ \<Rightarrow> None)"

text \<open>\<^verbatim>\<open>oldPath || newPath || vaultPath\<close>.\<close>

definition path_to_check :: "jsval \<Rightarrow> jsval \<Rightarrow> string \<Rightarrow> string" where
  "path_to_check old new vaultPath =
     (if js_truthy old then or_empty old else if js_truthy new then or_empty new else vaultPath)"

definition moved_to_other :: "jsval \<Rightarrow> jsval \<Rightarrow> string option \<Rightarrow> string option \<Rightarrow> bool" where
  "moved_to_other old new src dst = (old \<noteq> Null \<and> new = Null \<and> truthy src \<and> truthy dst)"

definition moved_from_other :: "jsval \<Rightarrow> jsval \<Rightarrow> string option \<Rightarrow> string option \<Rightarrow> bool" where
  "moved_from_other old new src dst = (old = Null \<and> new \<noteq> Null \<and> truthy src \<and> truthy dst)"

definition file_options ::
  "jsval \<Rightarrow> jsval \<Rightarrow> string option \<Rightarrow> string option \<Rightarrow> string \<Rightarrow> LinkUpdateOptions" where
  "file_options old new src dst file =
     \<lparr>filePath = file, oldPath = or_empty old, newPath = or_null new,
      isMovedToOtherVault = moved_to_other old new src dst,
      isMovedFromOtherVault = moved_from_other old new src dst,
      sourceVaultName = src, destVaultName = dst\<rparr>"

text \<open>
  The loop over the documents: the destination of a move is skipped, a document whose
  update throws is logged and passed over.
\<close>

fun update_files ::
  "env \<Rightarrow> string \<Rightarrow> jsval \<Rightarrow> jsval \<Rightarrow> string option \<Rightarrow> string option \<Rightarrow> string list
     \<Rightarrow> nat \<times> world \<Rightarrow> nat \<times> world" where
  "update_files e vaultPath old new src dst [] nw = nw"
| "update_files e vaultPath old new src dst (file # rest) nw =
     (if js_truthy new \<and> file = path_join e vaultPath (or_empty new)
      then update_files e vaultPath old new src dst rest nw
      else
        (case updateLinksInFile (file_options old new src dst file) (snd nw) of
           (Inr wasUpdated, w') \<Rightarrow>
             update_files e vaultPath old new src dst rest
               (if wasUpdated then fst nw + 1 else fst nw, w')
         | (Inl err, w') \<Rightarrow> update_files e vaultPath old new src dst rest (fst nw, w')))"

definition updateVaultLinks ::
  "env \<Rightarrow> string \<Rightarrow> jsval \<Rightarrow> jsval \<Rightarrow> string option \<Rightarrow> string option \<Rightarrow> world
     \<Rightarrow> (exn + nat) \<times> world" where
  "updateVaultLinks e vaultPath old new src dst w =
     (case validateVaultPath e vaultPath (path_to_check old new vaultPath) of
        Some err \<Rightarrow> (Inl (rethrow ''Failed to update vault links: '' err), w)
      | None \<Rightarrow>
          (case getAllMarkdownFiles e vaultPath of
             Inl err \<Rightarrow> (Inl (rethrow ''Failed to update vault links: '' err), w)
           | Inr fs \<Rightarrow>
               (case getOrUpdateLinkMap e vaultPath True w of
                  (Inl err, w1) \<Rightarrow> (Inl (rethrow ''Failed to update vault links: '' err), w1)
                | (Inr linkMap, w1) \<Rightarrow>
                    (case update_files e vaultPath old new src dst fs (0, w1) of
                       (updatedFiles, w2) \<Rightarrow> (Inr updatedFiles, w2)))))"

record update =
  upd_oldPath :: string
  upd_newPath :: "string option"
  upd_sourceVaultName :: "string option"
  upd_destVaultName :: "string option"












section \<open>Link integrity checker\<close>

text \<open>
  \<^verbatim>\<open>content.replace(search, replacement)\<close> with two texts: the first occurrence is
  replaced, and in the replacement \<^verbatim>\<open>$$\<close>, \<^verbatim>\<open>$&\<close>, \<^verbatim>\<open>$`\<close> and \<^verbatim>\<open>$'\<close> stand for a
  dollar, the match, the text before it and the text after it.
\<close>

fun find_sub :: "string \<Rightarrow> string \<Rightarrow> nat option" where
  "find_sub pat [] = (if pat = [] then Some 0 else None)"
| "find_sub pat (c # cs) =
     (if take (length pat) (c # cs) = pat then Some 0 else map_option Suc (find_sub pat cs))"

fun expand_replacement :: "string \<Rightarrow> string \<Rightarrow> string \<Rightarrow> string \<Rightarrow> string" where
  "expand_replacement matched pre post [] = []"
| "expand_replacement matched pre post [c] = [c]"
| "expand_replacement matched pre post (c # d # r) =
     (if c \<noteq> CHR ''$'' then c # expand_replacement matched pre post (d # r)
      else if d = CHR ''$'' then CHR ''$'' # expand_replacement matched pre post r
      else if d = CHR ''&'' then matched @ expand_replacement matched pre post r
      else if d = CHR 0x60 then pre @ expand_replacement matched pre post r
      else if d = CHR 0x27 then post @ expand_replacement matched pre post r
      else c # expand_replacement matched pre post (d # r))"

definition replace_str :: "string \<Rightarrow> string \<Rightarrow> string \<Rightarrow> string" where
  "replace_str content search replacement =
     (case find_sub search content of
        None \<Rightarrow> content
      | Some i \<Rightarrow>
          take i content
          @ expand_replacement search (take i content) (drop (i + length search) content) replacement
          @ drop (i + length search) content)"

definition broken_link_warning :: string where
  "broken_link_warning =
     [CHR 0x0A, CHR 0x0A] @ ''> [!warning] Broken link: Target file doesn'' @ [CHR 0x27] @ ''t exist''"

definition annotate :: "string \<Rightarrow> WikiLink \<Rightarrow> string" where
  "annotate content link = replace_str content (link_text link) (link_text link @ broken_link_warning)"

text \<open>
  \<^verbatim>\<open>Object.entries\<close>: the keys that are array indices come first, in ascending order,
  then the other keys in the order of their creation.
\<close>

definition is_digit :: "char \<Rightarrow> bool" where
  "is_digit c = (48 \<le> (of_char c :: nat) \<and> (of_char c :: nat) \<le> 57)"

definition digits_value :: "string \<Rightarrow> nat" where
  "digits_value k = foldl (\<lambda>n c. 10 * n + ((of_char c :: nat) - 48)) 0 k"

definition is_array_index :: "string \<Rightarrow> bool" where
  "is_array_index k =
     (k \<noteq> [] \<and> list_all is_digit k \<and> (if take 1 k = ''0'' then k = ''0'' else True)
      \<and> digits_value k < 2 ^ 32 - 1)"

definition object_entries :: "WikiLinkMap \<Rightarrow> (string \<times> Backlink list) list" where
  "object_entries m =
     sort_key (\<lambda>p. digits_value (fst p)) (filter (\<lambda>p. is_array_index (fst p)) m)
     @ filter (\<lambda>p. \<not> is_array_index (fst p)) m"

record validation =
  brokenLinks :: nat
  repairedLinks :: nat
  affectedFiles :: nat

text \<open>
  The body of the loop over the backlinks of a missing target. The counters of the links
  are raised before the write, so they stay raised when the write fails.
\<close>

definition repair_backlink ::
  "env \<Rightarrow> string \<Rightarrow> validation \<times> world \<Rightarrow> Backlink \<Rightarrow> validation \<times> world" where
  "repair_backlink e vaultPath vw backlink =
     (let v = fst vw; w = snd vw; path = path_join e vaultPath (sourceFile backlink) in
      case readFile w path of
        Inl err \<Rightarrow> (v, w)
      | Inr content0 \<Rightarrow>
          (let content = foldl annotate content0 (links backlink);
               v1 = v\<lparr>brokenLinks := brokenLinks v + length (links backlink),
                      repairedLinks := repairedLinks v + length (links backlink)\<rparr>;
               fileUpdated = (links backlink \<noteq> [])
           in if fileUpdated then
                (case writeFile w path content of
                   Inl err \<Rightarrow> (v1, w)
                 | Inr w' \<Rightarrow> (v1\<lparr>affectedFiles := affectedFiles v1 + 1\<rparr>, w'))
              else (v1, w)))"

definition check_target ::
  "env \<Rightarrow> string \<Rightarrow> validation \<times> world \<Rightarrow> string \<times> Backlink list \<Rightarrow> validation \<times> world" where
  "check_target e vaultPath vw entry =
     (let targetPath = path_join e vaultPath (fst entry @ ''.md'');
          targetExists = access (snd vw) targetPath
      in if \<not> targetExists then foldl (repair_backlink e vaultPath) vw (snd entry) else vw)"

definition validateVaultLinks :: "env \<Rightarrow> string \<Rightarrow> world \<Rightarrow> (exn + validation) \<times> world" where
  "validateVaultLinks e vaultPath w =
     (case validateVaultPath e vaultPath [] of
        Some err \<Rightarrow> (Inl (rethrow ''Failed to validate vault links: '' err), w)
      | None \<Rightarrow>
          (case getOrUpdateLinkMap e vaultPath True w of
             (Inl err, w1) \<Rightarrow> (Inl (rethrow ''Failed to validate vault links: '' err), w1)
           | (Inr linkMap, w1) \<Rightarrow>
               (case foldl (check_target e vaultPath)
                       (\<lparr>brokenLinks = 0, repairedLinks = 0, affectedFiles = 0\<rparr>, w1)
                       (object_entries linkMap) of
                  (v, w2) \<Rightarrow> (Inr v, w2))))"

section \<open>Documents as text and links\<close>

text \<open>
  A document whose only brackets are those of its links, as the statements about the
  parser and the rewriter read it: pieces of text without an opening bracket, and links
  with a target, an optional heading after \<^verbatim>\<open>#\<close>, an optional alias after \<^verbatim>\<open>|\<close> and
  an optional exclamation mark in front (an embed). \<open>render_doc\<close> is the text of the
  document.
\<close>

datatype piece = Txt string | Link bool string "string option" "string option"

definition link_body :: "string \<Rightarrow> string option \<Rightarrow> string option \<Rightarrow> string" where
  "link_body t h a =
     t @ (case h of None \<Rightarrow> [] | Some x \<Rightarrow> ''#'' @ x) @ (case a of None \<Rightarrow> [] | Some y \<Rightarrow> ''|'' @ y)"

fun render_piece :: "piece \<Rightarrow> string" where
  "render_piece (Txt s) = s"
| "render_piece (Link em t h a) = (if em then ''!'' else []) @ ''[['' @ link_body t h a @ '']]''"

definition render_doc :: "piece list \<Rightarrow> string" where
  "render_doc ps = concat (map render_piece ps)"

text \<open>
  The parts of a link: a target has none of the characters \<^verbatim>\<open>[ ] | #\<close>, a heading is
  not empty and has none of \<^verbatim>\<open>[ ] |\<close>, an alias is not empty and has none of
  \<^verbatim>\<open>[ ]\<close>.
\<close>

definition name_text :: "string \<Rightarrow> bool" where
  "name_text t = list_all (\<lambda>c. c \<notin> set ''[]|#'') t"

definition heading_text :: "string \<Rightarrow> bool" where
  "heading_text x = (x \<noteq> [] \<and> list_all (\<lambda>c. c \<notin> set ''[]|'') x)"

definition alias_text :: "string \<Rightarrow> bool" where
  "alias_text y = (y \<noteq> [] \<and> list_all (\<lambda>c. c \<notin> set ''[]'') y)"

fun wf_piece :: "piece \<Rightarrow> bool" where
  "wf_piece (Txt s) = list_all (\<lambda>c. c \<noteq> CHR ''['') s"
| "wf_piece (Link em t h a) =
     (name_text t \<and> (case h of None \<Rightarrow> True | Some x \<Rightarrow> heading_text x)
      \<and> (case a of None \<Rightarrow> True | Some y \<Rightarrow> alias_text y))"

fun targets :: "string \<Rightarrow> piece \<Rightarrow> bool" where
  "targets n (Txt s) = False"
| "targets n (Link em t h a) = (t = n)"

text \<open>A rename read on the document: the links to the old name get the new name.\<close>

fun retarget :: "string \<Rightarrow> string \<Rightarrow> piece \<Rightarrow> piece" where
  "retarget old new (Txt s) = Txt s"
| "retarget old new (Link em t h a) = (if t = old then Link em new h a else Link em t h a)"

text \<open>One pass of a rename: only the links whose heading part satisfies \<open>P\<close>.\<close>

fun retarget_where :: "(string option \<Rightarrow> bool) \<Rightarrow> string \<Rightarrow> string \<Rightarrow> piece \<Rightarrow> piece" where
  "retarget_where P old new (Txt s) = Txt s"
| "retarget_where P old new (Link em t h a) =
     (if t = old \<and> P h then Link em new h a else Link em t h a)"

text \<open>A base name that can be a target, and is read as a literal in a pattern.\<close>

definition link_name :: "string \<Rightarrow> bool" where
  "link_name n = (regex_plain n \<and> list_all (\<lambda>c. c \<noteq> CHR ''#'') n)"

text \<open>
  What the checker does, told from the index and the world before the run. A source
  entry of a missing target is repaired when its document can be read and written; nothing
  that the run does changes which documents exist, can be read or can be written.
\<close>

definition entry_path :: "env \<Rightarrow> string \<Rightarrow> Backlink \<Rightarrow> string" where
  "entry_path e vaultPath backlink = path_join e vaultPath (sourceFile backlink)"

definition repairable :: "env \<Rightarrow> string \<Rightarrow> world \<Rightarrow> Backlink \<Rightarrow> bool" where
  "repairable e vaultPath w backlink =
     (case readFile w (entry_path e vaultPath backlink) of
        Inl err \<Rightarrow> False
      | Inr content \<Rightarrow> links backlink \<noteq> [] \<and> \<not> write_fails w (entry_path e vaultPath backlink))"

definition missing_target :: "env \<Rightarrow> string \<Rightarrow> world \<Rightarrow> string \<times> Backlink list \<Rightarrow> bool" where
  "missing_target e vaultPath w entry = (\<not> access w (path_join e vaultPath (fst entry @ ''.md'')))"

definition repaired_entries :: "env \<Rightarrow> string \<Rightarrow> world \<Rightarrow> WikiLinkMap \<Rightarrow> Backlink list" where
  "repaired_entries e vaultPath w linkMap =
     concat (map (\<lambda>entry. if missing_target e vaultPath w entry
                           then filter (repairable e vaultPath w) (snd entry) else [])
                 (object_entries linkMap))"

definition same_io :: "world \<Rightarrow> world \<Rightarrow> bool" where
  "same_io w w' =
     (dom (files w') = dom (files w) \<and> read_fails w' = read_fails w
      \<and> write_fails w' = write_fails w \<and> other_paths w' = other_paths w)"

text \<open>
  What the coordinator does to one document, told from the world before the run: the
  document is skipped when it is the destination of the move; it is changed when it can be
  read, the rewriter (with the note, if any) gives another text, and it can be written.
\<close>

definition skipped :: "env \<Rightarrow> string \<Rightarrow> jsval \<Rightarrow> string \<Rightarrow> bool" where
  "skipped e vaultPath new file = (js_truthy new \<and> file = path_join e vaultPath (or_empty new))"

definition updated_text ::
  "jsval \<Rightarrow> jsval \<Rightarrow> string option \<Rightarrow> string option \<Rightarrow> world \<Rightarrow> string \<Rightarrow> string option" where
  "updated_text old new src dst w file =
     (case readFile w file of
        Inl err \<Rightarrow> None
      | Inr content \<Rightarrow> Some (final_content (file_options old new src dst file) content))"

definition changes ::
  "jsval \<Rightarrow> jsval \<Rightarrow> string option \<Rightarrow> string option \<Rightarrow> world \<Rightarrow> string \<Rightarrow> bool" where
  "changes old new src dst w file =
     (case readFile w file of
        Inl err \<Rightarrow> False
      | Inr content \<Rightarrow>
          final_content (file_options old new src dst file) content \<noteq> content
          \<and> \<not> write_fails w file)"

definition updates ::
  "env \<Rightarrow> string \<Rightarrow> jsval \<Rightarrow> jsval \<Rightarrow> string option \<Rightarrow> string option \<Rightarrow> world \<Rightarrow> string \<Rightarrow> bool" where
  "updates e vaultPath old new src dst w file =
     (\<not> skipped e vaultPath new file \<and> changes old new src dst w file)"

text \<open>The world after \<open>updateLinksInFile\<close> has run on one document.\<close>

definition after_file ::
  "jsval \<Rightarrow> jsval \<Rightarrow> string option \<Rightarrow> string option \<Rightarrow> world \<Rightarrow> string \<Rightarrow> world"  where
  "after_file old new src dst w f = snd (updateLinksInFile (file_options old new src dst f) w)"

section \<open>Example vaults\<close>

text \<open>
  A vault whose collaborators never fail: the enumeration returns the given paths, paths
  are joined with a separator, relative paths drop the root and its separator, and the
  clock counts its readings.
\<close>

definition example_env :: "string list \<Rightarrow> env" where
  "example_env fs =
     \<lparr>validateVaultPath = (\<lambda>root p. None), getAllMarkdownFiles = (\<lambda>root. Inr fs),
      path_join = (\<lambda>a b. a @ ''/'' @ b), path_relative = (\<lambda>a b. drop (length a + 1) b),
      date_now = (\<lambda>n. int n)\<rparr>"

definition example_world :: "(string \<times> string) list \<Rightarrow> world" where
  "example_world docs =
     \<lparr>files = map_of docs, read_fails = (\<lambda>p. False), write_fails = (\<lambda>p. False),
      other_paths = (\<lambda>p. False), write_log = [], cachedLinkMap = None, lastUpdateTime = 0,
      ticks = 0\<rparr>"

text \<open>Two vaults behind one enumeration: the root decides which documents are listed.\<close>

definition two_roots_env :: env where
  "two_roots_env =
     (example_env [])\<lparr>getAllMarkdownFiles :=
        (\<lambda>root. if root = ''/a'' then Inr [''/a/x.md''] else Inr [''/b/y.md''])\<rparr>"

definition two_roots_world :: world where
  "two_roots_world = example_world [(''/a/x.md'', ''[[InA]]''), (''/b/y.md'', ''[[InB]]'')]"

definition index_of_root_a :: WikiLinkMap where
  "index_of_root_a =
     [(''InA'', [\<lparr>sourceFile = ''x.md'',
                  links = [\<lparr>link_text = ''[[InA]]'', target = ''InA'', link_alias = None, line = 1,
                            link_context = ''[[InA]]'', isHeading = False, heading = None\<rparr>]\<rparr>])]"

definition after_build_for_a :: world where
  "after_build_for_a = snd (getOrUpdateLinkMap two_roots_env ''/a'' True two_roots_world)"

text \<open>
  A note is moved to the vault \<open>Dst\<close>: the old path is given, the new path is
  \<^verbatim>\<open>null\<close>, both vault names are given.
\<close>

definition moved_away_run :: "(exn + nat) \<times> world" where
  "moved_away_run =
     updateVaultLinks (example_env [''/v/a.md'']) ''/v'' (Str ''Note.md'') Null
       (Some ''Src'') (Some ''Dst'') (example_world [(''/v/a.md'', ''See [[Note]]'')])"

text \<open>
  A note arrives from the vault \<open>Src\<close> as \<open>New.md\<close>: the old path is \<^verbatim>\<open>null\<close>, the
  new path and both vault names are given.
\<close>

definition moved_in_run :: "(exn + nat) \<times> world" where
  "moved_in_run =
     updateVaultLinks (example_env [''/v/a.md'', ''/v/New.md'']) ''/v'' Null (Str ''New.md'')
       (Some ''Src'') (Some ''Dst'')
       (example_world [(''/v/a.md'', ''hello''), (''/v/New.md'', ''moved'')])"

text \<open>One document with links to two notes that do not exist.\<close>

definition two_missing_run :: "(exn + validation) \<times> world" where
  "two_missing_run =
     validateVaultLinks (example_env [''/v/a.md'']) ''/v''
       (example_world [(''/v/a.md'', ''[[X]] [[Y]]'')])"




text \<open>
  Three documents link to \<open>Note\<close>; the first cannot be read and the last cannot be
  written. A second vault rejects every path, a third cannot be enumerated.
\<close>

definition three_docs :: "string list" where
  "three_docs = [''/v/a.md'', ''/v/b.md'', ''/v/c.md'']"

definition locked_world :: world where
  "locked_world =
     (example_world [(''/v/a.md'', ''[[Note]]''), (''/v/b.md'', ''[[Note]]''), (''/v/c.md'', ''[[Note]]'')])
       \<lparr>read_fails := (\<lambda>p. p = ''/v/a.md''), write_fails := (\<lambda>p. p = ''/v/c.md'')\<rparr>"

definition rejecting_env :: env where
  "rejecting_env = (example_env three_docs)
     \<lparr>validateVaultPath := (\<lambda>root p. Some (McpError InvalidRequest ''Path must be within the vault''))\<rparr>"

definition unlistable_env :: env where
  "unlistable_env = (example_env three_docs)
     \<lparr>getAllMarkdownFiles := (\<lambda>root. Inl (JsError ''EACCES''))\<rparr>"

section \<open>The index cache\<close>

lemma getOrUpdateLinkMap_forced:
  "getOrUpdateLinkMap e root True w = (Inr m, w1) \<Longrightarrow>
     createWikiLinkMap e root (w\<lparr>ticks := ticks w + 1\<rparr>) = Inr m
     \<and> w1 = w\<lparr>ticks := ticks w + 1, cachedLinkMap := Some m, lastUpdateTime := date_now e (ticks w)\<rparr>"
  by (auto simp: getOrUpdateLinkMap_def Let_def split: option.splits sum.splits)

lemma getOrUpdateLinkMap_cached:
  "cachedLinkMap w = Some m \<Longrightarrow> date_now e (ticks w) - lastUpdateTime w \<le> CACHE_TTL \<Longrightarrow>
     getOrUpdateLinkMap e root False w = (Inr m, w\<lparr>ticks := ticks w + 1\<rparr>)"
  by (simp add: getOrUpdateLinkMap_def Let_def)

text \<open>
  C10. The cache is consulted by time only. When a forced call for root A has built the
  index \<open>mA\<close> from the documents of A, a later call for a different root B that is not
  forced and reads the clock within the time to live returns \<open>mA\<close> and builds nothing: the
  cache stays as it was.
\<close>

theorem C10_cache_keyed_on_time_only:
  assumes "rootA \<noteq> rootB"
    and "getOrUpdateLinkMap e rootA True w0 = (Inr mA, w1)"
    and "date_now e (ticks w1) - lastUpdateTime w1 \<le> CACHE_TTL"
  shows "createWikiLinkMap e rootA (w0\<lparr>ticks := ticks w0 + 1\<rparr>) = Inr mA
         \<and> getOrUpdateLinkMap e rootB False w1 = (Inr mA, w1\<lparr>ticks := ticks w1 + 1\<rparr>)"
proof -
  from getOrUpdateLinkMap_forced [OF assms(2)]
  have built: "createWikiLinkMap e rootA (w0\<lparr>ticks := ticks w0 + 1\<rparr>) = Inr mA"
    and cached: "cachedLinkMap w1 = Some mA"
    by simp_all
  from getOrUpdateLinkMap_cached [OF cached assms(3)] built show ?thesis
    by simp
qed

theorem C10_cache_keyed_on_time_only_witness:
  "''/a'' \<noteq> ''/b''
   \<and> getOrUpdateLinkMap two_roots_env ''/a'' True two_roots_world = (Inr index_of_root_a, after_build_for_a)
   \<and> date_now two_roots_env (ticks after_build_for_a) - lastUpdateTime after_build_for_a \<le> CACHE_TTL
   \<and> fst (getOrUpdateLinkMap two_roots_env ''/b'' False after_build_for_a) = Inr index_of_root_a
   \<and> createWikiLinkMap two_roots_env ''/b'' after_build_for_a \<noteq> Inr index_of_root_a"
proof -
  have ne: "''/a'' \<noteq> ''/b''" by simp
  have "fst (getOrUpdateLinkMap two_roots_env ''/a'' True two_roots_world) = Inr index_of_root_a"
    by code_simp
  then have built:
    "getOrUpdateLinkMap two_roots_env ''/a'' True two_roots_world = (Inr index_of_root_a, after_build_for_a)"
    by (simp add: after_build_for_a_def prod_eq_iff)
  have fresh:
    "date_now two_roots_env (ticks after_build_for_a) - lastUpdateTime after_build_for_a \<le> CACHE_TTL"
    by code_simp
  have other: "createWikiLinkMap two_roots_env ''/b'' after_build_for_a \<noteq> Inr index_of_root_a"
    by code_simp
  from C10_cache_keyed_on_time_only [OF ne built fresh] ne built fresh other show ?thesis
    by simp
qed

section \<open>The rewriter and the coordinator on examples\<close>

text \<open>
  C1. The operation is classified as moved to another collection, and the link to the
  note in the other document is struck through like a deleted one: the new path is
  absent, so the rewriter takes its deletion branch before it looks at the destination
  collection. The claim asks for \<open>See [[Dst/Note]]\<close>.
\<close>

theorem C1_cross_collection_move_is_struck_through:
  "moved_to_other (Str ''Note.md'') Null (Some ''Src'') (Some ''Dst'')
   \<and> fst moved_away_run = Inr 1
   \<and> files (snd moved_away_run) ''/v/a.md'' = Some ''See ~~[[Note]]~~''"
  by code_simp

text \<open>
  C2. The operation is classified as moved from another collection. The destination
  \<open>/v/New.md\<close> is skipped by the loop and keeps its text; the other document, which has
  no link at all, gets the note about the originating collection.
\<close>

theorem C2_note_goes_to_the_other_documents:
  "moved_from_other Null (Str ''New.md'') (Some ''Src'') (Some ''Dst'')
   \<and> fst moved_in_run = Inr 1
   \<and> files (snd moved_in_run) ''/v/New.md'' = Some ''moved''
   \<and> files (snd moved_in_run) ''/v/a.md'' = Some (''hello'' @ moved_from_note ''Src'')"
  by code_simp

text \<open>
  C3. A deletion of \<open>Note\<close> wraps the plain link and the link with an alias, but of the
  embed only the bracket part: the pass for plain links has rewritten it before the pass
  for embeds runs, and the exclamation mark stays outside the markers.
\<close>

theorem C3_delete_leaves_embed_mark_outside:
  "updateWikiLinks ''[[Note]]'' ''Note.md'' None None False = ''~~[[Note]]~~''
   \<and> updateWikiLinks ''[[Note|Alt]]'' ''Note.md'' None None False = ''~~[[Note|Alt]]~~''
   \<and> updateWikiLinks ''![[Note]]'' ''Note.md'' None None False = ''!~~[[Note]]~~''"
  by code_simp

section \<open>The order of a batch\<close>













section \<open>What the integrity checker counts\<close>

lemma same_io_refl: "same_io w w"
  by (simp add: same_io_def)

lemma same_io_trans: "same_io w w1 \<Longrightarrow> same_io w1 w2 \<Longrightarrow> same_io w w2"
  by (simp add: same_io_def)

lemma same_io_exists: "same_io w w' \<Longrightarrow> (files w' p = None) = (files w p = None)"
  unfolding same_io_def by (metis domIff)

lemma same_io_read_ok:
  "same_io w w' \<Longrightarrow> (\<exists>c. readFile w' p = Inr c) = (\<exists>c. readFile w p = Inr c)"
  using same_io_exists [of w w' p]
  by (cases "files w p"; cases "files w' p") (auto simp: readFile_def same_io_def)

lemma same_io_repairable: "same_io w w' \<Longrightarrow> repairable e root w' bl = repairable e root w bl"
  using same_io_read_ok [of w w' "entry_path e root bl"]
  by (auto simp: repairable_def same_io_def split: sum.splits)

lemma same_io_missing: "same_io w w' \<Longrightarrow> missing_target e root w' en = missing_target e root w en"
  using same_io_exists [of w w' "path_join e root (fst en @ ''.md'')"]
  by (cases "files w (path_join e root (fst en @ ''.md''))";
      cases "files w' (path_join e root (fst en @ ''.md''))")
     (auto simp: missing_target_def access_def same_io_def)

lemma readFile_dom: "readFile w p = Inr c \<Longrightarrow> p \<in> dom (files w)"
  by (auto simp: readFile_def split: option.splits if_splits)

lemma repair_backlink_step:
  assumes "repair_backlink e root (v, w) bl = (v', w')"
  shows "same_io w w'
     \<and> affectedFiles v' = affectedFiles v + (if repairable e root w bl then 1 else 0)
     \<and> map fst (write_log w') =
         map fst (write_log w) @ (if repairable e root w bl then [entry_path e root bl] else [])"
proof (cases "readFile w (entry_path e root bl)")
  case (Inl err)
  with assms show ?thesis
    by (auto simp: repair_backlink_def repairable_def entry_path_def Let_def same_io_def)
next
  case (Inr c)
  then have "entry_path e root bl \<in> dom (files w)" by (rule readFile_dom)
  with assms Inr show ?thesis
    by (auto simp: repair_backlink_def repairable_def entry_path_def Let_def same_io_def
          writeFile_def insert_absorb split: if_splits)
qed

lemma repair_backlinks_fold:
  "foldl (repair_backlink e root) (v, w) bls = (v', w') \<Longrightarrow>
     same_io w w'
     \<and> affectedFiles v' = affectedFiles v + length (filter (repairable e root w) bls)
     \<and> map fst (write_log w') =
         map fst (write_log w) @ map (entry_path e root) (filter (repairable e root w) bls)"
proof (induction bls arbitrary: v w)
  case Nil
  then show ?case by (simp add: same_io_refl)
next
  case (Cons bl bls)
  obtain v1 w1 where s: "repair_backlink e root (v, w) bl = (v1, w1)"
    by (cases "repair_backlink e root (v, w) bl")
  note st = repair_backlink_step [OF s]
  from Cons.prems s have "foldl (repair_backlink e root) (v1, w1) bls = (v', w')" by simp
  note ih = Cons.IH [OF this]
  from st have io: "same_io w w1" by simp
  have r: "repairable e root w1 = repairable e root w"
    using same_io_repairable [OF io] by (simp add: fun_eq_iff)
  from st ih io show ?case
    by (auto simp: r intro: same_io_trans)
qed

lemma check_target_step:
  assumes "check_target e root (v, w) en = (v', w')"
  shows "same_io w w'
     \<and> affectedFiles v' = affectedFiles v
          + length (if missing_target e root w en then filter (repairable e root w) (snd en) else [])
     \<and> map fst (write_log w') = map fst (write_log w)
          @ map (entry_path e root)
              (if missing_target e root w en then filter (repairable e root w) (snd en) else [])"
proof (cases "missing_target e root w en")
  case True
  with assms have "foldl (repair_backlink e root) (v, w) (snd en) = (v', w')"
    by (simp add: check_target_def missing_target_def Let_def)
  from repair_backlinks_fold [OF this] True show ?thesis by simp
next
  case False
  with assms show ?thesis
    by (simp add: check_target_def missing_target_def Let_def same_io_refl)
qed

lemma check_targets_fold:
  "foldl (check_target e root) (v, w) ens = (v', w') \<Longrightarrow>
     same_io w w'
     \<and> affectedFiles v' = affectedFiles v
          + length (concat (map (\<lambda>en. if missing_target e root w en
                                       then filter (repairable e root w) (snd en) else []) ens))
     \<and> map fst (write_log w') = map fst (write_log w)
          @ map (entry_path e root)
              (concat (map (\<lambda>en. if missing_target e root w en
                                  then filter (repairable e root w) (snd en) else []) ens))"
proof (induction ens arbitrary: v w)
  case Nil
  then show ?case by (simp add: same_io_refl)
next
  case (Cons en ens)
  obtain v1 w1 where s: "check_target e root (v, w) en = (v1, w1)"
    by (cases "check_target e root (v, w) en")
  note st = check_target_step [OF s]
  from Cons.prems s have "foldl (check_target e root) (v1, w1) ens = (v', w')" by simp
  note ih = Cons.IH [OF this]
  from st have io: "same_io w w1" by simp
  have eq: "(\<lambda>en. if missing_target e root w1 en
                   then filter (repairable e root w1) (snd en) else [])
          = (\<lambda>en. if missing_target e root w en
                   then filter (repairable e root w) (snd en) else [])"
    by (rule ext) (simp add: same_io_missing [OF io] same_io_repairable [OF io] cong: filter_cong)
  note ih' = ih [unfolded eq]
  have "same_io w w'"
    using io ih by (blast intro: same_io_trans)
  moreover have "affectedFiles v' = affectedFiles v
          + length (concat (map (\<lambda>en. if missing_target e root w en
                                       then filter (repairable e root w) (snd en) else []) (en # ens)))"
    using st ih' by simp
  moreover have "map fst (write_log w') = map fst (write_log w)
          @ map (entry_path e root)
              (concat (map (\<lambda>en. if missing_target e root w en
                                  then filter (repairable e root w) (snd en) else []) (en # ens)))"
    using st ih' by simp
  ultimately show ?case by blast
qed

text \<open>
  C5, as the code has it. When the checker returns, \<open>affectedFiles\<close> is the number of
  source entries of missing targets whose document could be read and written, in the
  index that the run has built, and the run has written once for each of these entries, in
  their order: a document is written and counted once for every entry it has under a
  missing target, not once in all.
\<close>

theorem C5_affected_files_counts_source_entries:
  assumes "validateVaultLinks e root w = (Inr v, w')"
  shows "\<exists>m. createWikiLinkMap e root (w\<lparr>ticks := ticks w + 1\<rparr>) = Inr m
     \<and> affectedFiles v = length (repaired_entries e root w m)
     \<and> map fst (write_log w') =
         map fst (write_log w) @ map (entry_path e root) (repaired_entries e root w m)"
proof -
  from assms obtain m w1 where
    g: "getOrUpdateLinkMap e root True w = (Inr m, w1)" and
    f: "foldl (check_target e root) (\<lparr>brokenLinks = 0, repairedLinks = 0, affectedFiles = 0\<rparr>, w1)
          (object_entries m) = (v, w')"
    by (auto simp: validateVaultLinks_def split: option.splits prod.splits sum.splits)
  from getOrUpdateLinkMap_forced [OF g] have
    c: "createWikiLinkMap e root (w\<lparr>ticks := ticks w + 1\<rparr>) = Inr m" and
    w1: "w1 = w\<lparr>ticks := ticks w + 1, cachedLinkMap := Some m, lastUpdateTime := date_now e (ticks w)\<rparr>"
    by simp_all
  have io: "same_io w w1" by (simp add: w1 same_io_def)
  have eq: "repaired_entries e root w1 m = repaired_entries e root w m"
    unfolding repaired_entries_def
    by (rule arg_cong [where f = concat], rule map_cong)
       (simp_all add: same_io_missing [OF io] same_io_repairable [OF io] cong: filter_cong)
  have lg: "write_log w1 = write_log w" by (simp add: w1)
  from check_targets_fold [OF f] c show ?thesis
    by (auto simp: repaired_entries_def [symmetric] eq lg)
qed


theorem C5_affected_files_counts_source_entries_witness:
  "fst two_missing_run = Inr \<lparr>brokenLinks = 2, repairedLinks = 2, affectedFiles = 2\<rparr>
   \<and> (\<exists>m. createWikiLinkMap (example_env [''/v/a.md'']) ''/v''
              ((example_world [(''/v/a.md'', ''[[X]] [[Y]]'')])\<lparr>ticks := 1\<rparr>) = Inr m
          \<and> length (repaired_entries (example_env [''/v/a.md'']) ''/v''
                      (example_world [(''/v/a.md'', ''[[X]] [[Y]]'')]) m) = 2
          \<and> map (entry_path (example_env [''/v/a.md'']) ''/v'')
                (repaired_entries (example_env [''/v/a.md'']) ''/v''
                      (example_world [(''/v/a.md'', ''[[X]] [[Y]]'')]) m)
              = [''/v/a.md'', ''/v/a.md''])"
proof -
  have r: "fst two_missing_run = Inr \<lparr>brokenLinks = 2, repairedLinks = 2, affectedFiles = 2\<rparr>"
    by code_simp
  then have run: "validateVaultLinks (example_env [''/v/a.md'']) ''/v''
       (example_world [(''/v/a.md'', ''[[X]] [[Y]]'')])
     = (Inr \<lparr>brokenLinks = 2, repairedLinks = 2, affectedFiles = 2\<rparr>, snd two_missing_run)"
    by (simp add: two_missing_run_def prod_eq_iff)
  have log: "map fst (write_log (snd two_missing_run)) = [''/v/a.md'', ''/v/a.md'']"
    by code_simp
  have t: "ticks (example_world [(''/v/a.md'', ''[[X]] [[Y]]'')]) = 0"
          "write_log (example_world [(''/v/a.md'', ''[[X]] [[Y]]'')]) = []"
    by (simp_all add: example_world_def)
  from C5_affected_files_counts_source_entries [OF run] r log show ?thesis
    by (auto simp: t)
qed

text \<open>
  C5, as it is stated, fails on a document with links to two missing notes: one document
  is annotated, it is written twice, and \<open>affectedFiles\<close> is two.
\<close>

theorem C5_counterexample:
  "fst two_missing_run = Inr \<lparr>brokenLinks = 2, repairedLinks = 2, affectedFiles = 2\<rparr>
   \<and> map fst (write_log (snd two_missing_run)) = [''/v/a.md'', ''/v/a.md'']
   \<and> length (remdups (map fst (write_log (snd two_missing_run)))) = 1"
  by code_simp

section \<open>Failures in the coordinator\<close>

lemma filePath_file_options [simp]: "filePath (file_options old new src dst f) = f"
  by (simp add: file_options_def)

lemma after_file_eq:
  "after_file old new src dst w f =
     (if changes old new src dst w f
      then w\<lparr>files := (files w)(f := updated_text old new src dst w f),
             write_log := write_log w
               @ [(f, case updated_text old new src dst w f of None \<Rightarrow> [] | Some t \<Rightarrow> t)]\<rparr>
      else w)"
  by (auto simp: after_file_def updateLinksInFile_def changes_def updated_text_def writeFile_def
        Let_def split: sum.splits)

lemma updateLinksInFile_ok_iff:
  "(fst (updateLinksInFile (file_options old new src dst f) w) = Inr True)
     = changes old new src dst w f"
  by (auto simp: updateLinksInFile_def changes_def writeFile_def Let_def split: sum.splits)

lemma after_file_other:
  "g \<noteq> f \<Longrightarrow> readFile (after_file old new src dst w f) g = readFile w g"
  "write_fails (after_file old new src dst w f) = write_fails w"
  "g \<noteq> f \<Longrightarrow> files (after_file old new src dst w f) g = files w g"
  by (simp_all add: after_file_eq readFile_def split: option.splits)

lemma after_file_same:
  "files (after_file old new src dst w f) f =
     (if changes old new src dst w f then updated_text old new src dst w f else files w f)"
  by (simp add: after_file_eq)

lemma changes_other:
  "g \<noteq> f \<Longrightarrow> changes old new src dst (after_file old new src dst w f) g = changes old new src dst w g"
  "g \<noteq> f \<Longrightarrow> updated_text old new src dst (after_file old new src dst w f) g = updated_text old new src dst w g"
  by (simp_all add: changes_def updated_text_def after_file_other split: sum.splits)

lemma updates_skipped: "skipped e root new f \<Longrightarrow> \<not> updates e root old new src dst w f"
  by (simp add: updates_def)

lemma updates_not_skipped:
  "\<not> skipped e root new f \<Longrightarrow> updates e root old new src dst w f = changes old new src dst w f"
  by (simp add: updates_def)

lemma update_files_step:
  "update_files e root old new src dst (f # rest) (n, w) =
     (if skipped e root new f then update_files e root old new src dst rest (n, w)
      else update_files e root old new src dst rest
             (if changes old new src dst w f then n + 1 else n, after_file old new src dst w f))"
proof -
  obtain r w' where u: "updateLinksInFile (file_options old new src dst f) w = (r, w')"
    by (cases "updateLinksInFile (file_options old new src dst f) w")
  have c: "changes old new src dst w f = (r = Inr True)"
    using updateLinksInFile_ok_iff [of old new src dst f w] u by simp
  show ?thesis
    using u by (cases r) (auto simp: skipped_def after_file_def c)
qed


lemma update_files_result:
  "distinct fs \<Longrightarrow>
   \<exists>w'. update_files e root old new src dst fs (n, w)
          = (n + length (filter (updates e root old new src dst w) fs), w')
      \<and> (\<forall>f. files w' f = (if f \<in> set fs \<and> updates e root old new src dst w f
                           then updated_text old new src dst w f else files w f))"
proof (induction fs arbitrary: n w)
  case Nil
  then show ?case by simp
next
  case (Cons f rest)
  then have d: "distinct rest" and nf: "f \<notin> set rest" by simp_all
  show ?case
  proof (cases "skipped e root new f")
    case True
    from Cons.IH [OF d, of n w] obtain w' where
      "update_files e root old new src dst rest (n, w)
          = (n + length (filter (updates e root old new src dst w) rest), w')"
      "\<forall>g. files w' g = (if g \<in> set rest \<and> updates e root old new src dst w g
                           then updated_text old new src dst w g else files w g)"
      by blast
    with True show ?thesis
      by (auto simp: update_files_step updates_skipped simp del: update_files.simps)
  next
    case False
    let ?w1 = "after_file old new src dst w f"
    let ?n1 = "if changes old new src dst w f then n + 1 else n"
    from Cons.IH [OF d, of ?n1 ?w1] obtain w' where
      r: "update_files e root old new src dst rest (?n1, ?w1)
          = (?n1 + length (filter (updates e root old new src dst ?w1) rest), w')" and
      fl: "\<forall>g. files w' g = (if g \<in> set rest \<and> updates e root old new src dst ?w1 g
                           then updated_text old new src dst ?w1 g else files ?w1 g)"
      by blast
    have eq: "filter (updates e root old new src dst ?w1) rest
            = filter (updates e root old new src dst w) rest"
    proof (rule filter_cong [OF refl])
      fix g assume "g \<in> set rest"
      with nf have "g \<noteq> f" by auto
      then show "updates e root old new src dst ?w1 g = updates e root old new src dst w g"
        by (simp add: updates_def changes_other)
    qed
    have "update_files e root old new src dst (f # rest) (n, w)
          = (n + length (filter (updates e root old new src dst w) (f # rest)), w')"
      using False r by (simp add: update_files_step eq updates_not_skipped del: update_files.simps)
    moreover have "files w' g = (if g \<in> set (f # rest) \<and> updates e root old new src dst w g
                           then updated_text old new src dst w g else files w g)" for g
    proof (cases "g = f")
      case True
      with nf fl False show ?thesis by (simp add: after_file_same updates_not_skipped)
    next
      case ne: False
      with fl show ?thesis by (simp add: after_file_other changes_other updates_def)
    qed
    ultimately show ?thesis by blast
  qed
qed


lemma readFile_cache_fields:
  "readFile (w\<lparr>ticks := t, cachedLinkMap := c, lastUpdateTime := l\<rparr>) p = readFile w p"
  by (simp add: readFile_def split: option.splits)

lemma cache_fields_irrelevant:
  "updates e root old new src dst (w\<lparr>ticks := t, cachedLinkMap := c, lastUpdateTime := l\<rparr>)
     = updates e root old new src dst w"
  "updated_text old new src dst (w\<lparr>ticks := t, cachedLinkMap := c, lastUpdateTime := l\<rparr>)
     = updated_text old new src dst w"
  by (simp_all add: fun_eq_iff updates_def changes_def updated_text_def readFile_cache_fields
        split: sum.splits)

lemma getOrUpdateLinkMap_listed:
  "getAllMarkdownFiles e root = Inr fs \<Longrightarrow>
     \<exists>m. getOrUpdateLinkMap e root True w
            = (Inr m, w\<lparr>ticks := ticks w + 1, cachedLinkMap := Some m,
                         lastUpdateTime := date_now e (ticks w)\<rparr>)"
  by (simp add: getOrUpdateLinkMap_def createWikiLinkMap_def Let_def split: option.splits)

text \<open>
  C8. A failure of the path validation, and a failure of the enumeration after a
  validation that passed, end the call with that failure (wrapped when it is not a
  protocol error) and leave the world as it was. When both pass, the call returns, whatever
  reading and writing do on single documents: the count is the number of listed documents
  that are not the destination, can be read, come out changed and can be written, each of
  these holds its new text afterwards, and every other document holds what it held.
\<close>

theorem C8_validation_and_enumeration_fatal_documents_recoverable:
  "(validateVaultPath e root (path_to_check old new root) = Some err \<longrightarrow>
      updateVaultLinks e root old new src dst w
        = (Inl (rethrow ''Failed to update vault links: '' err), w))
   \<and> (validateVaultPath e root (path_to_check old new root) = None \<longrightarrow>
      getAllMarkdownFiles e root = Inl err \<longrightarrow>
      updateVaultLinks e root old new src dst w
        = (Inl (rethrow ''Failed to update vault links: '' err), w))
   \<and> (validateVaultPath e root (path_to_check old new root) = None \<longrightarrow>
      getAllMarkdownFiles e root = Inr fs \<longrightarrow> distinct fs \<longrightarrow>
      (\<exists>w'. updateVaultLinks e root old new src dst w
               = (Inr (length (filter (updates e root old new src dst w) fs)), w')
           \<and> (\<forall>f. files w' f = (if f \<in> set fs \<and> updates e root old new src dst w f
                                 then updated_text old new src dst w f else files w f))))"
proof (intro conjI impI)
  assume "validateVaultPath e root (path_to_check old new root) = Some err"
  then show "updateVaultLinks e root old new src dst w
        = (Inl (rethrow ''Failed to update vault links: '' err), w)"
    by (simp add: updateVaultLinks_def)
next
  assume "validateVaultPath e root (path_to_check old new root) = None"
    and "getAllMarkdownFiles e root = Inl err"
  then show "updateVaultLinks e root old new src dst w
        = (Inl (rethrow ''Failed to update vault links: '' err), w)"
    by (simp add: updateVaultLinks_def)
next
  assume v: "validateVaultPath e root (path_to_check old new root) = None"
    and l: "getAllMarkdownFiles e root = Inr fs" and d: "distinct fs"
  from getOrUpdateLinkMap_listed [OF l, of w] obtain m where
    g: "getOrUpdateLinkMap e root True w
          = (Inr m, w\<lparr>ticks := ticks w + 1, cachedLinkMap := Some m,
                       lastUpdateTime := date_now e (ticks w)\<rparr>)"
    by blast
  let ?w1 = "w\<lparr>ticks := ticks w + 1, cachedLinkMap := Some m, lastUpdateTime := date_now e (ticks w)\<rparr>"
  from update_files_result [OF d, of e root old new src dst 0 ?w1] obtain w' where
    u: "update_files e root old new src dst fs (0, ?w1)
          = (length (filter (updates e root old new src dst w) fs), w')" and
    f: "\<forall>f. files w' f = (if f \<in> set fs \<and> updates e root old new src dst w f
                           then updated_text old new src dst w f else files w f)"
    by (auto simp: cache_fields_irrelevant)
  from v l g u have "updateVaultLinks e root old new src dst w
               = (Inr (length (filter (updates e root old new src dst w) fs)), w')"
    by (simp add: updateVaultLinks_def)
  with f show "\<exists>w'. updateVaultLinks e root old new src dst w
               = (Inr (length (filter (updates e root old new src dst w) fs)), w')
           \<and> (\<forall>f. files w' f = (if f \<in> set fs \<and> updates e root old new src dst w f
                                 then updated_text old new src dst w f else files w f))"
    by blast
qed





theorem C8_validation_and_enumeration_fatal_documents_recoverable_witness:
  "updateVaultLinks rejecting_env ''/v'' (Str ''Note.md'') (Str ''New.md'') None None locked_world
     = (Inl (McpError InvalidRequest ''Path must be within the vault''), locked_world)
   \<and> updateVaultLinks unlistable_env ''/v'' (Str ''Note.md'') (Str ''New.md'') None None locked_world
     = (Inl (McpError InternalError ''Failed to update vault links: EACCES''), locked_world)
   \<and> fst (updateVaultLinks (example_env three_docs) ''/v'' (Str ''Note.md'') (Str ''New.md'')
            None None locked_world) = Inr 1
   \<and> map (files (snd (updateVaultLinks (example_env three_docs) ''/v'' (Str ''Note.md'')
                       (Str ''New.md'') None None locked_world))) three_docs
       = [Some ''[[Note]]'', Some ''[[New]]'', Some ''[[Note]]'']"
proof -
  note c8 = C8_validation_and_enumeration_fatal_documents_recoverable
  have rejected: "validateVaultPath rejecting_env ''/v'' (path_to_check (Str ''Note.md'') (Str ''New.md'') ''/v'')
      = Some (McpError InvalidRequest ''Path must be within the vault'')"
    by (simp add: rejecting_env_def)
  have passes: "validateVaultPath unlistable_env ''/v'' (path_to_check (Str ''Note.md'') (Str ''New.md'') ''/v'') = None"
    "validateVaultPath (example_env three_docs) ''/v'' (path_to_check (Str ''Note.md'') (Str ''New.md'') ''/v'') = None"
    by (simp_all add: unlistable_env_def example_env_def)
  have unlisted: "getAllMarkdownFiles unlistable_env ''/v'' = Inl (JsError ''EACCES'')"
    by (simp add: unlistable_env_def)
  have listed: "getAllMarkdownFiles (example_env three_docs) ''/v'' = Inr three_docs"
    by (simp add: example_env_def)
  have dist: "distinct three_docs"
    by (simp add: three_docs_def)
  have one: "length (filter (updates (example_env three_docs) ''/v'' (Str ''Note.md'') (Str ''New.md'')
                None None locked_world) three_docs) = 1"
    by code_simp
  have texts: "map (\<lambda>f. if f \<in> set three_docs
                    \<and> updates (example_env three_docs) ''/v'' (Str ''Note.md'') (Str ''New.md'')
                         None None locked_world f
                 then updated_text (Str ''Note.md'') (Str ''New.md'') None None locked_world f
                 else files locked_world f) three_docs
       = [Some ''[[Note]]'', Some ''[[New]]'', Some ''[[Note]]'']"
    by code_simp
  from c8 [of rejecting_env "''/v''" "Str ''Note.md''" "Str ''New.md''" _ None None locked_world] rejected
  have a: "updateVaultLinks rejecting_env ''/v'' (Str ''Note.md'') (Str ''New.md'') None None locked_world
     = (Inl (McpError InvalidRequest ''Path must be within the vault''), locked_world)"
    by (simp add: rethrow_def)
  from c8 [of unlistable_env "''/v''" "Str ''Note.md''" "Str ''New.md''" _ None None locked_world]
    passes unlisted
  have b: "updateVaultLinks unlistable_env ''/v'' (Str ''Note.md'') (Str ''New.md'') None None locked_world
     = (Inl (McpError InternalError ''Failed to update vault links: EACCES''), locked_world)"
    by (simp add: rethrow_def)
  from c8 [of "example_env three_docs" "''/v''" "Str ''Note.md''" "Str ''New.md''" _ None None
              locked_world three_docs] passes listed dist
  obtain w' where
    r: "updateVaultLinks (example_env three_docs) ''/v'' (Str ''Note.md'') (Str ''New.md'') None None locked_world
          = (Inr (length (filter (updates (example_env three_docs) ''/v'' (Str ''Note.md'') (Str ''New.md'')
                None None locked_world) three_docs)), w')" and
    f: "\<forall>f. files w' f = (if f \<in> set three_docs
                    \<and> updates (example_env three_docs) ''/v'' (Str ''Note.md'') (Str ''New.md'')
                         None None locked_world f
                 then updated_text (Str ''Note.md'') (Str ''New.md'') None None locked_world f
                 else files locked_world f)"
    by blast
  from f have "map (files w') three_docs = [Some ''[[Note]]'', Some ''[[New]]'', Some ''[[Note]]'']"
    unfolding texts [symmetric] by (intro map_cong refl) simp
  with a b r one show ?thesis by simp
qed

end
